theory Spec2Isabelle
  imports Main "HOL-Library.Word"
begin

section \<open>TabSaver: the popup controller of \<^verbatim>\<open>popup.js\<close>\<close>

text \<open>
  The popup keeps one module-level array \<^verbatim>\<open>sessions\<close>, mirrors it into
  \<^verbatim>\<open>chrome.storage.local\<close> under the key \<^verbatim>\<open>sessions\<close>, and reacts to clicks.
  Every handler of \<^verbatim>\<open>popup.js\<close> is modelled as a function from the popup's state to
  the popup's state. What the browser answers (the tabs of the window, the clock, the
  answer to \<^verbatim>\<open>confirm\<close>, whether a promise resolves or rejects) is the \<open>host\<close>
  argument of the handler. Each handler runs from its first statement to its last
  without another handler running in between.
\<close>

subsection \<open>Strings\<close>

text \<open>
  A JavaScript string is a sequence of 16-bit code units. \<open>js\<close> embeds a literal of
  the source.
\<close>

type_synonym jsstring = "16 word list"

definition js :: "string \<Rightarrow> jsstring" where
  "js s = map of_char s"

text \<open>
  \<^verbatim>\<open>String.prototype.trim\<close> removes the code units of ECMAScript's WhiteSpace and
  LineTerminator productions from both ends.
\<close>

definition isWhiteSpace :: "16 word \<Rightarrow> bool" where
  "isWhiteSpace c \<longleftrightarrow>
     c = 0x0009 \<or> c = 0x000A \<or> c = 0x000B \<or> c = 0x000C \<or> c = 0x000D \<or> c = 0x0020 \<or>
     c = 0x00A0 \<or> c = 0x1680 \<or> (0x2000 \<le> c \<and> c \<le> 0x200A) \<or> c = 0x2028 \<or>
     c = 0x2029 \<or> c = 0x202F \<or> c = 0x205F \<or> c = 0x3000 \<or> c = 0xFEFF"

definition trim :: "jsstring \<Rightarrow> jsstring" where
  "trim s = rev (dropWhile isWhiteSpace (rev (dropWhile isWhiteSpace s)))"

text \<open>The decimal digits of a length, as a template literal prints a number.\<close>

fun decimal :: "nat \<Rightarrow> jsstring" where
  "decimal n =
     (if n < 10 then [of_nat (48 + n)]
      else decimal (n div 10) @ [of_nat (48 + n mod 10)])"

declare decimal.simps [simp del]

subsection \<open>Arrays\<close>

text \<open>
  \<^verbatim>\<open>Array.prototype.findIndex\<close>: the index of the first element that satisfies the
  predicate, \<open>-1\<close> when there is none.
\<close>

fun findIndexFrom :: "('a \<Rightarrow> bool) \<Rightarrow> int \<Rightarrow> 'a list \<Rightarrow> int" where
  "findIndexFrom p k [] = -1"
| "findIndexFrom p k (x # xs) = (if p x then k else findIndexFrom p (k + 1) xs)"

definition findIndex :: "('a \<Rightarrow> bool) \<Rightarrow> 'a list \<Rightarrow> int" where
  "findIndex p xs = findIndexFrom p 0 xs"

text \<open>
  \<^verbatim>\<open>Array.prototype.splice(start, deleteCount)\<close> with no items to insert: a negative
  \<open>start\<close> counts from the end, and both arguments are clamped to the array.
\<close>

definition splice :: "'a list \<Rightarrow> int \<Rightarrow> int \<Rightarrow> 'a list" where
  "splice xs start deleteCount =
     (let len = int (length xs);
          actualStart = (if start < 0 then max (len + start) 0 else min start len);
          actualDeleteCount = min (max deleteCount 0) (len - actualStart)
      in take (nat actualStart) xs @ drop (nat (actualStart + actualDeleteCount)) xs)"

subsection \<open>Data\<close>

text \<open>What \<^verbatim>\<open>saveCurrentTabs\<close> keeps of a tab, and a saved session.\<close>

record tab_rec =
  title :: jsstring
  url :: jsstring

record session =
  name :: jsstring
  tabs :: "tab_rec list"
  timestamp :: int
  tabCount :: nat

text \<open>
  A tab as \<^verbatim>\<open>chrome.tabs.query\<close> returns it; the popup reads its \<^verbatim>\<open>title\<close> and
  \<^verbatim>\<open>url\<close> only.
\<close>

record chrome_tab =
  tab_id :: int
  tab_title :: jsstring
  tab_url :: jsstring

text \<open>
  \<^verbatim>\<open>chrome.storage.local\<close> holds two keys, \<^verbatim>\<open>sessions\<close> and \<^verbatim>\<open>darkMode\<close>; a key
  that was never written reads as \<^verbatim>\<open>undefined\<close>, here \<open>None\<close>.
\<close>

record storage_local =
  sessions_key :: "session list option"
  darkMode_key :: "bool option"

subsection \<open>The host\<close>

text \<open>
  What the browser answers during one handler. A promise that rejects carries an error,
  here its message.
\<close>

type_synonym host_error = jsstring

record host =
  tabs_query :: "host_error + chrome_tab list"
  tabs_create :: "nat \<Rightarrow> host_error option"
  storage_get :: "host_error option"
  storage_set :: "host_error option"
  confirm :: bool
  date_now :: int
  date_toLocaleString :: jsstring

subsection \<open>What the popup does that can be observed\<close>

datatype feedback_type = Success | Error

datatype console_arg = Timestamp int | Thrown host_error

datatype event =
    Feedback jsstring feedback_type
  | ConsoleError jsstring console_arg
  | Confirm jsstring
  | TabsQuery
  | TabsCreate jsstring bool
  | TabsCreateSettled bool
  | StorageGet
  | StorageSet "session list"

text \<open>
  The state of the popup: the two module-level variables, the parts of the document the
  handlers read and write, the extension's storage, and the trace of events so far.
  \<open>cards\<close> are the session cards of the list, top first.
\<close>

record popup =
  sessions :: "session list"
  currentRenameTimestamp :: "int option"
  sessionNameInput :: jsstring
  renameInput :: jsstring
  renameModalHidden :: bool
  cards :: "session list"
  emptyStateHidden :: bool
  storage :: storage_local
  trace :: "event list"

definition emit :: "event \<Rightarrow> popup \<Rightarrow> popup" where
  "emit e st = st\<lparr>trace := trace st @ [e]\<rparr>"

definition showFeedback :: "jsstring \<Rightarrow> feedback_type \<Rightarrow> popup \<Rightarrow> popup" where
  "showFeedback message type st = emit (Feedback message type) st"

definition console_error :: "jsstring \<Rightarrow> console_arg \<Rightarrow> popup \<Rightarrow> popup" where
  "console_error message arg st = emit (ConsoleError message arg) st"

definition renderSessions :: "popup \<Rightarrow> popup" where
  "renderSessions st =
     (if length (sessions st) = 0 then st\<lparr>cards := [], emptyStateHidden := False\<rparr>
      else st\<lparr>cards := rev (sessions st), emptyStateHidden := True\<rparr>)"

text \<open>
  \<^verbatim>\<open>await chrome.storage.local.set({ sessions: sessions })\<close>: the request is issued
  with the array as it is now; when the promise resolves the key holds that array, when
  it rejects the storage is as before and the error is thrown.
\<close>

definition storage_set_sessions :: "host \<Rightarrow> popup \<Rightarrow> host_error option \<times> popup" where
  "storage_set_sessions h st =
     (let st1 = emit (StorageSet (sessions st)) st
      in case storage_set h of
           Some err \<Rightarrow> (Some err, st1)
         | None \<Rightarrow> (None, st1\<lparr>storage := (storage st1)\<lparr>sessions_key := Some (sessions st1)\<rparr>\<rparr>))"

subsection \<open>Saving and loading\<close>

text \<open>
  \<^verbatim>\<open>saveCurrentTabs\<close>: the name is the trimmed input, or the default name when that is
  empty. Inside \<^verbatim>\<open>try\<close>: the tabs of the window are queried, the session is
  constructed and pushed, the array is written, the input is cleared, the list is
  rendered and success is reported. A rejection of the query or of the write goes to
  \<^verbatim>\<open>catch\<close>, which logs and reports it; what was done before stays done.
\<close>

definition saveCurrentTabs :: "host \<Rightarrow> popup \<Rightarrow> popup" where
  "saveCurrentTabs h st =
     (let trimmed = trim (sessionNameInput st);
          sessionName = (if trimmed = [] then js ''Session '' @ date_toLocaleString h else trimmed)
      in case tabs_query h of
           Inl err \<Rightarrow>
             showFeedback (js ''Error saving session'') Error
               (console_error (js ''Error saving tabs:'') (Thrown err) (emit TabsQuery st))
         | Inr windowTabs \<Rightarrow>
             (let tabData = map (\<lambda>tab. \<lparr>title = tab_title tab, url = tab_url tab\<rparr>) windowTabs;
                  newSession = \<lparr>name = sessionName, tabs = tabData, timestamp = date_now h,
                                tabCount = length tabData\<rparr>;
                  st1 = emit TabsQuery st;
                  st2 = st1\<lparr>sessions := sessions st1 @ [newSession]\<rparr>
              in case storage_set_sessions h st2 of
                   (Some err, st3) \<Rightarrow>
                     showFeedback (js ''Error saving session'') Error
                       (console_error (js ''Error saving tabs:'') (Thrown err) st3)
                 | (None, st3) \<Rightarrow>
                     showFeedback (js ''Session saved successfully!'') Success
                       (renderSessions (st3\<lparr>sessionNameInput := []\<rparr>))))"

text \<open>
  \<^verbatim>\<open>loadSessions\<close>: \<^verbatim>\<open>sessions = result.sessions || []\<close>, then render; a rejected read
  is logged and leaves the array as it is.
\<close>

definition loadSessions :: "host \<Rightarrow> popup \<Rightarrow> popup" where
  "loadSessions h st =
     (let st1 = emit StorageGet st
      in case storage_get h of
           Some err \<Rightarrow> console_error (js ''Error loading sessions:'') (Thrown err) st1
         | None \<Rightarrow>
             renderSessions
               (st1\<lparr>sessions := (case sessions_key (storage st1) of None \<Rightarrow> [] | Some xs \<Rightarrow> xs)\<rparr>))"

subsection \<open>Opening a session\<close>

text \<open>
  The loop \<^verbatim>\<open>for (const tab of session.tabs) await chrome.tabs.create(...)\<close>. The
  request for a tab is issued, and the loop goes on only when its promise has resolved;
  a rejection is thrown out of the loop. \<open>k\<close> counts the requests of this loop.
\<close>

fun createTabs :: "host \<Rightarrow> nat \<Rightarrow> tab_rec list \<Rightarrow> popup \<Rightarrow> host_error option \<times> popup" where
  "createTabs h k [] st = (None, st)"
| "createTabs h k (tab # rest) st =
     (let st1 = emit (TabsCreate (url tab) False) st
      in case tabs_create h k of
           Some err \<Rightarrow> (Some err, emit (TabsCreateSettled False) st1)
         | None \<Rightarrow> createTabs h (Suc k) rest (emit (TabsCreateSettled True) st1))"

text \<open>
  \<^verbatim>\<open>openSessionByTimestamp\<close>: \<^verbatim>\<open>sessions.find\<close> gives the first session with the
  timestamp, or nothing, which is reported.
\<close>

definition openSessionByTimestamp :: "int \<Rightarrow> host \<Rightarrow> popup \<Rightarrow> popup" where
  "openSessionByTimestamp ts h st =
     (case find (\<lambda>s. timestamp s = ts) (sessions st) of
        None \<Rightarrow>
          showFeedback (js ''Error: Session not found'') Error
            (console_error (js ''Session not found with timestamp:'') (Timestamp ts) st)
      | Some session \<Rightarrow>
          (case createTabs h 0 (tabs session) st of
             (Some err, st1) \<Rightarrow>
               showFeedback (js ''Error opening session'') Error
                 (console_error (js ''Error opening session:'') (Thrown err) st1)
           | (None, st1) \<Rightarrow>
               showFeedback
                 (js ''Opened '' @ decimal (length (tabs session)) @ js '' tab'' @
                  (if length (tabs session) \<noteq> 1 then js ''s'' else []))
                 Success st1))"

subsection \<open>Deleting a session\<close>

text \<open>
  \<^verbatim>\<open>deleteSessionByTimestamp\<close>: not found is reported; otherwise the user is asked with
  the session's name in the prompt, and on Cancel the handler returns. On OK, inside
  \<^verbatim>\<open>try\<close>, \<^verbatim>\<open>sessions.splice(index, 1)\<close>, the write, the rendering and the report.
\<close>

definition deleteSessionByTimestamp :: "int \<Rightarrow> host \<Rightarrow> popup \<Rightarrow> popup" where
  "deleteSessionByTimestamp ts h st =
     (let index = findIndex (\<lambda>s. timestamp s = ts) (sessions st)
      in if index = -1 then
           showFeedback (js ''Error: Session not found'') Error
             (console_error (js ''Session not found with timestamp:'') (Timestamp ts) st)
         else
           (let session = sessions st ! nat index;
                st1 = emit (Confirm (js ''Delete session '' @ [0x22] @ name session @ [0x22, 0x3F])) st
            in if \<not> confirm h then st1
               else
                 (case storage_set_sessions h (st1\<lparr>sessions := splice (sessions st1) index 1\<rparr>) of
                    (Some err, st2) \<Rightarrow>
                      showFeedback (js ''Error deleting session'') Error
                        (console_error (js ''Error deleting session:'') (Thrown err) st2)
                  | (None, st2) \<Rightarrow>
                      showFeedback (js ''Session deleted'') Success (renderSessions st2))))"

subsection \<open>Renaming a session\<close>

text \<open>
  \<^verbatim>\<open>openRenameModalByTimestamp\<close> remembers the timestamp, fills the input with the
  session's name and shows the dialog; \<^verbatim>\<open>closeRenameModal\<close> hides it and forgets the
  timestamp. \<^verbatim>\<open>confirmRename\<close> does nothing without a remembered timestamp, reports an
  empty trimmed input, and otherwise, inside \<^verbatim>\<open>try\<close>, assigns the new name to
  \<^verbatim>\<open>sessions[index].name\<close>, writes, renders, closes the dialog and reports.
\<close>

definition openRenameModalByTimestamp :: "int \<Rightarrow> popup \<Rightarrow> popup" where
  "openRenameModalByTimestamp ts st =
     (case find (\<lambda>s. timestamp s = ts) (sessions st) of
        None \<Rightarrow>
          showFeedback (js ''Error: Session not found'') Error
            (console_error (js ''Session not found with timestamp:'') (Timestamp ts) st)
      | Some session \<Rightarrow>
          st\<lparr>currentRenameTimestamp := Some ts, renameInput := name session,
             renameModalHidden := False\<rparr>)"

definition closeRenameModal :: "popup \<Rightarrow> popup" where
  "closeRenameModal st = st\<lparr>renameModalHidden := True, currentRenameTimestamp := None\<rparr>"

definition confirmRename :: "host \<Rightarrow> popup \<Rightarrow> popup" where
  "confirmRename h st =
     (case currentRenameTimestamp st of
        None \<Rightarrow> st
      | Some target \<Rightarrow>
          (let newName = trim (renameInput st)
           in if newName = [] then showFeedback (js ''Please enter a name'') Error st
              else
                (let index = findIndex (\<lambda>s. timestamp s = target) (sessions st)
                 in if index = -1 then showFeedback (js ''Error: Session not found'') Error st
                    else
                      (let renamed = (sessions st ! nat index)\<lparr>name := newName\<rparr>
                       in case storage_set_sessions h
                                 (st\<lparr>sessions := (sessions st)[nat index := renamed]\<rparr>) of
                            (Some err, st1) \<Rightarrow>
                              showFeedback (js ''Error renaming session'') Error
                                (console_error (js ''Error renaming session:'') (Thrown err) st1)
                          | (None, st1) \<Rightarrow>
                              showFeedback (js ''Session renamed'') Success
                                (closeRenameModal (renderSessions st1))))))"

subsection \<open>Reading a trace, and sequences of saves\<close>

text \<open>The tab-creation requests of a trace, in the order they were issued.\<close>

fun tabRequests :: "event list \<Rightarrow> (jsstring \<times> bool) list" where
  "tabRequests [] = []"
| "tabRequests (TabsCreate u a # es) = (u, a) # tabRequests es"
| "tabRequests (e # es) = tabRequests es"

text \<open>
  A run of saves: for each one the user leaves \<open>typed\<close> in the name input and clicks
  the save button.
\<close>

fun saveEach :: "(jsstring \<times> host) list \<Rightarrow> popup \<Rightarrow> popup" where
  "saveEach [] st = st"
| "saveEach ((typed, h) # rest) st = saveEach rest (saveCurrentTabs h (st\<lparr>sessionNameInput := typed\<rparr>))"

subsection \<open>Example states\<close>

text \<open>
  A window with two tabs, a browser whose calls all resolve and whose clock reads 1000,
  a popup that has just been opened on an extension that never stored anything, and a
  popup holding three sessions saved at 100, 200 and 300.
\<close>

definition tabA :: chrome_tab where
  "tabA = \<lparr>tab_id = 1, tab_title = js ''A'', tab_url = js ''https://a.test''\<rparr>"

definition tabB :: chrome_tab where
  "tabB = \<lparr>tab_id = 2, tab_title = js ''B'', tab_url = js ''https://b.test''\<rparr>"

definition example_host :: host where
  "example_host =
     \<lparr>tabs_query = Inr [tabA, tabB], tabs_create = (\<lambda>k. None), storage_get = None,
      storage_set = None, confirm = True, date_now = 1000,
      date_toLocaleString = js ''10/11/2025, 1:30:00 PM''\<rparr>"

definition example_popup :: popup where
  "example_popup =
     \<lparr>sessions = [], currentRenameTimestamp = None, sessionNameInput = [], renameInput = [],
      renameModalHidden = True, cards = [], emptyStateHidden = False,
      storage = \<lparr>sessions_key = None, darkMode_key = None\<rparr>, trace = []\<rparr>"

definition session_at :: "int \<Rightarrow> session" where
  "session_at t =
     \<lparr>name = js ''Work'',
      tabs = [\<lparr>title = js ''A'', url = js ''https://a.test''\<rparr>,
              \<lparr>title = js ''B'', url = js ''https://b.test''\<rparr>],
      timestamp = t, tabCount = 2\<rparr>"

definition example_store :: popup where
  "example_store =
     example_popup
       \<lparr>sessions := [session_at 100, session_at 200, session_at 300],
        storage := \<lparr>sessions_key = Some [session_at 100, session_at 200, session_at 300],
                    darkMode_key = None\<rparr>\<rparr>"

text \<open>The same popup with the rename dialog open on the session saved at 200.\<close>

definition example_rename :: popup where
  "example_rename =
     example_store\<lparr>currentRenameTimestamp := Some 200, renameModalHidden := False\<rparr>"

text \<open>
  Two browsers that differ from the first in one answer: one rejects the creation of the
  first tab, the other rejects the tab query.
\<close>

definition rejecting_host :: host where
  "rejecting_host =
     example_host\<lparr>tabs_create := (\<lambda>k. if k = 0 then Some (js ''No tab'') else None)\<rparr>"

definition failing_query_host :: host where
  "failing_query_host = example_host\<lparr>tabs_query := Inl (js ''No window'')\<rparr>"

section \<open>Properties\<close>

subsection \<open>Arrays and strings\<close>

lemma findIndexFrom_first:
  "\<forall>y\<in>set pre. \<not> p y \<Longrightarrow> p x \<Longrightarrow> findIndexFrom p k (pre @ x # post) = k + int (length pre)"
  by (induction pre arbitrary: k) auto

lemma findIndexFrom_none:
  "0 \<le> k \<Longrightarrow> findIndexFrom p k xs = -1 \<longleftrightarrow> (\<forall>x\<in>set xs. \<not> p x)"
  by (induction xs arbitrary: k) auto

lemma findIndex_first:
  "\<forall>y\<in>set pre. \<not> p y \<Longrightarrow> p x \<Longrightarrow> findIndex p (pre @ x # post) = int (length pre)"
  by (simp add: findIndex_def findIndexFrom_first)

lemma findIndex_none: "findIndex p xs = -1 \<longleftrightarrow> (\<forall>x\<in>set xs. \<not> p x)"
  by (simp add: findIndex_def findIndexFrom_none)

lemma find_first:
  "\<forall>y\<in>set pre. \<not> p y \<Longrightarrow> p x \<Longrightarrow> find p (pre @ x # post) = Some x"
  by (induction pre) auto

lemma first_match_split:
  assumes "\<exists>x\<in>set xs. p x"
  shows "\<exists>pre x post. xs = pre @ x # post \<and> p x \<and> (\<forall>y\<in>set pre. \<not> p y)"
  using split_list_first_prop [OF assms] by blast

lemma splice_one:
  "splice (pre @ x # post) (int (length pre)) 1 = pre @ post"
proof -
  have "nat (int (length pre) + 1) = Suc (length pre)" by simp
  then show ?thesis by (simp add: splice_def Let_def)
qed

text \<open>
  An index that \<open>findIndex\<close> returns, other than \<open>-1\<close>, is an index of the array, so
  the reads \<^verbatim>\<open>sessions[index]\<close> of the handlers never leave it.
\<close>

lemma findIndex_in_range:
  assumes "findIndex p xs \<noteq> -1"
  shows "0 \<le> findIndex p xs \<and> findIndex p xs < int (length xs) \<and> p (xs ! nat (findIndex p xs))"
proof -
  from assms have "\<exists>x\<in>set xs. p x" by (simp add: findIndex_none)
  from first_match_split [OF this] obtain pre x post where
    d: "xs = pre @ x # post" and x: "p x" and pre: "\<forall>y\<in>set pre. \<not> p y"
    by blast
  have "findIndex p xs = int (length pre)"
    unfolding d using pre x by (rule findIndex_first)
  then show ?thesis using x by (simp add: d)
qed

lemma trim_empty_iff: "trim s = [] \<longleftrightarrow> (\<forall>c\<in>set s. isWhiteSpace c)"
proof
  assume "trim s = []"
  then have a: "\<forall>x\<in>set (dropWhile isWhiteSpace s). isWhiteSpace x"
    by (simp add: trim_def)
  have "dropWhile isWhiteSpace s = []"
  proof (rule ccontr)
    assume n: "dropWhile isWhiteSpace s \<noteq> []"
    then have "\<not> isWhiteSpace (hd (dropWhile isWhiteSpace s))" by (rule hd_dropWhile)
    moreover have "hd (dropWhile isWhiteSpace s) \<in> set (dropWhile isWhiteSpace s)"
      using n by simp
    ultimately show False using a by blast
  qed
  then show "\<forall>c\<in>set s. isWhiteSpace c" by simp
next
  assume "\<forall>c\<in>set s. isWhiteSpace c"
  then have d: "dropWhile isWhiteSpace s = []" by simp
  show "trim s = []" by (simp only: trim_def d rev.simps dropWhile.simps)
qed

subsection \<open>What the helpers leave alone\<close>

lemma renderSessions_frame [simp]:
  "sessions (renderSessions st) = sessions st"
  "storage (renderSessions st) = storage st"
  "trace (renderSessions st) = trace st"
  "currentRenameTimestamp (renderSessions st) = currentRenameTimestamp st"
  "renameModalHidden (renderSessions st) = renameModalHidden st"
  by (simp_all add: renderSessions_def)

lemmas handler_defs = emit_def showFeedback_def console_error_def storage_set_sessions_def

lemmas example_defs = tabA_def tabB_def example_host_def example_popup_def session_at_def
  example_store_def

subsection \<open>Saving\<close>

text \<open>
  A save whose tab query resolves appends one session, stamped with the clock reading of
  that save, and leaves the sessions before it as they were; when the storage write
  resolves as well, loading afterwards gives the list the popup holds.
\<close>

lemma save_timestamps:
  assumes "tabs_query h = Inr windowTabs"
  shows "map timestamp (sessions (saveCurrentTabs h st)) = map timestamp (sessions st) @ [date_now h]"
  using assms
  by (cases "storage_set h") (simp_all add: saveCurrentTabs_def Let_def handler_defs)

lemma saveEach_timestamps:
  assumes "\<forall>e\<in>set es. \<exists>w. tabs_query (snd e) = Inr w"
  shows "map timestamp (sessions (saveEach es st)) =
           map timestamp (sessions st) @ map (\<lambda>e. date_now (snd e)) es"
  using assms
proof (induction es arbitrary: st)
  case Nil
  then show ?case by simp
next
  case (Cons e rest)
  obtain typed h where e: "e = (typed, h)" by (cases e)
  from Cons.prems e obtain w where w: "tabs_query h = Inr w" by auto
  from Cons.prems have r: "\<forall>e\<in>set rest. \<exists>w. tabs_query (snd e) = Inr w" by simp
  show ?case
    by (simp add: e Cons.IH [OF r] save_timestamps [OF w])
qed

lemma save_then_load:
  assumes "tabs_query h = Inr windowTabs" and "storage_set h = None" and "storage_get hl = None"
  shows "sessions (loadSessions hl (saveCurrentTabs h st)) = sessions (saveCurrentTabs h st)"
  using assms by (simp add: loadSessions_def saveCurrentTabs_def Let_def handler_defs)

lemma save_stored:
  assumes "tabs_query h = Inr windowTabs" and "storage_set h = None"
  shows "sessions_key (storage (saveCurrentTabs h st)) = Some (sessions (saveCurrentTabs h st))"
  using assms by (simp add: saveCurrentTabs_def Let_def handler_defs)

lemma saveEach_snoc:
  "saveEach (es @ [(typed, h)]) st =
     saveCurrentTabs h ((saveEach es st)\<lparr>sessionNameInput := typed\<rparr>)"
  by (induction es arbitrary: st) auto

lemma saveEach_stored:
  assumes "\<forall>e\<in>set es. \<exists>w. tabs_query (snd e) = Inr w \<and> storage_set (snd e) = None"
    and "es \<noteq> []"
  shows "sessions_key (storage (saveEach es st)) = Some (sessions (saveEach es st))"
proof -
  from assms(2) obtain es' e where s: "es = es' @ [e]" by (metis rev_exhaust)
  obtain typed h where e: "e = (typed, h)" by (cases e)
  from assms(1) s e obtain w where "tabs_query h = Inr w" and "storage_set h = None" by auto
  then show ?thesis unfolding s e saveEach_snoc by (rule save_stored)
qed

lemma saveEach_then_load:
  assumes "\<forall>e\<in>set es. \<exists>w. tabs_query (snd e) = Inr w \<and> storage_set (snd e) = None"
    and "es \<noteq> []" and "storage_get hl = None"
  shows "sessions (loadSessions hl (saveEach es st)) = sessions (saveEach es st)"
  using saveEach_stored [OF assms(1,2), of st] assms(3)
  by (simp add: loadSessions_def Let_def handler_defs)

text \<open>
  From a popup without sessions, the timestamps after a run of saves are distinct exactly
  when the clock readings of the saves are.
\<close>

lemma saveEach_distinct_iff:
  assumes "\<forall>e\<in>set es. \<exists>w. tabs_query (snd e) = Inr w"
    and "sessions st = []"
  shows "distinct (map timestamp (sessions (saveEach es st))) \<longleftrightarrow>
         distinct (map (\<lambda>e. date_now (snd e)) es)"
  by (simp add: saveEach_timestamps [OF assms(1)] assms(2))

text \<open>
  C1. Starting from an empty store, loading after each save returns the sessions saved so
  far in creation order, and no two sessions of the store have the same timestamp.

  The order holds: each save appends at the end, and loading after a run of saves
  returns the list the popup holds (\<open>saveEach_timestamps\<close>, \<open>saveEach_then_load\<close>).
  The timestamps are the readings of \<^verbatim>\<open>Date.now()\<close>, which the source calls a unique ID
  and never compares with the timestamps already stored (\<open>saveEach_distinct_iff\<close>). Two
  saves that read the same millisecond leave two sessions with one timestamp: here both
  saves read 1000, and loading afterwards returns both.
\<close>

theorem two_saves_in_one_millisecond_share_timestamp:
  "map timestamp
     (sessions (loadSessions example_host
        (saveCurrentTabs example_host (saveCurrentTabs example_host example_popup)))) =
     [1000, 1000] \<and>
   \<not> distinct (map timestamp
     (sessions (loadSessions example_host
        (saveCurrentTabs example_host (saveCurrentTabs example_host example_popup)))))"
  by (simp add: loadSessions_def saveCurrentTabs_def Let_def handler_defs example_defs)

text \<open>
  C2. A save whose name input is empty after trimming is blocked with a validation error
  and changes nothing.

  The source does not validate the name of a save: an empty trimmed input is replaced by
  \<^verbatim>\<open>Session\<close> followed by the locale-formatted time, and the save goes on as any
  other. For every answer of the host: the tab query is issued; when it resolves, the
  session is appended under the default name and the list is submitted to storage; when
  the write resolves too, the storage holds the list and success is reported. The only
  error such a save reports is \<^verbatim>\<open>Error saving session\<close>, after the query has rejected
  (the state is otherwise unchanged) or after the write has rejected (the appended
  session stays in memory, the storage is unchanged).
\<close>

theorem save_blank_name_uses_default:
  assumes "trim (sessionNameInput st) = []"
  shows "(\<forall>err. tabs_query h = Inl err \<longrightarrow>
            saveCurrentTabs h st =
              st\<lparr>trace := trace st @
                [TabsQuery, ConsoleError (js ''Error saving tabs:'') (Thrown err),
                 Feedback (js ''Error saving session'') Error]\<rparr>) \<and>
         (\<forall>windowTabs. tabs_query h = Inr windowTabs \<longrightarrow>
            sessions (saveCurrentTabs h st) =
              sessions st @
                [\<lparr>name = js ''Session '' @ date_toLocaleString h,
                  tabs = map (\<lambda>tab. \<lparr>title = tab_title tab, url = tab_url tab\<rparr>) windowTabs,
                  timestamp = date_now h, tabCount = length windowTabs\<rparr>] \<and>
            (storage_set h = None \<longrightarrow>
               sessions_key (storage (saveCurrentTabs h st)) =
                 Some (sessions (saveCurrentTabs h st)) \<and>
               trace (saveCurrentTabs h st) =
                 trace st @
                   [TabsQuery, StorageSet (sessions (saveCurrentTabs h st)),
                    Feedback (js ''Session saved successfully!'') Success]) \<and>
            (\<forall>err. storage_set h = Some err \<longrightarrow>
               storage (saveCurrentTabs h st) = storage st \<and>
               trace (saveCurrentTabs h st) =
                 trace st @
                   [TabsQuery, StorageSet (sessions (saveCurrentTabs h st)),
                    ConsoleError (js ''Error saving tabs:'') (Thrown err),
                    Feedback (js ''Error saving session'') Error]))"
proof (intro conjI allI impI)
  fix err assume "tabs_query h = Inl err"
  then show "saveCurrentTabs h st =
      st\<lparr>trace := trace st @
        [TabsQuery, ConsoleError (js ''Error saving tabs:'') (Thrown err),
         Feedback (js ''Error saving session'') Error]\<rparr>"
    by (simp add: saveCurrentTabs_def Let_def handler_defs)
next
  fix windowTabs assume q: "tabs_query h = Inr windowTabs"
  show "sessions (saveCurrentTabs h st) =
      sessions st @
        [\<lparr>name = js ''Session '' @ date_toLocaleString h,
          tabs = map (\<lambda>tab. \<lparr>title = tab_title tab, url = tab_url tab\<rparr>) windowTabs,
          timestamp = date_now h, tabCount = length windowTabs\<rparr>]"
    using assms q
    by (cases "storage_set h") (simp_all add: saveCurrentTabs_def Let_def handler_defs)
  {
    assume w: "storage_set h = None"
    show "sessions_key (storage (saveCurrentTabs h st)) = Some (sessions (saveCurrentTabs h st))"
      using q w by (simp add: saveCurrentTabs_def Let_def handler_defs)
    show "trace (saveCurrentTabs h st) =
        trace st @
          [TabsQuery, StorageSet (sessions (saveCurrentTabs h st)),
           Feedback (js ''Session saved successfully!'') Success]"
      using q w by (simp add: saveCurrentTabs_def Let_def handler_defs)
  }
  {
    fix err assume w: "storage_set h = Some err"
    show "storage (saveCurrentTabs h st) = storage st"
      using q w by (simp add: saveCurrentTabs_def Let_def handler_defs)
    show "trace (saveCurrentTabs h st) =
        trace st @
          [TabsQuery, StorageSet (sessions (saveCurrentTabs h st)),
           ConsoleError (js ''Error saving tabs:'') (Thrown err),
           Feedback (js ''Error saving session'') Error]"
      using q w by (simp add: saveCurrentTabs_def Let_def handler_defs)
  }
qed

theorem save_blank_name_uses_default_witness:
  "trim (sessionNameInput (example_store\<lparr>sessionNameInput := [0x20]\<rparr>)) = [] \<and>
   map name (sessions (saveCurrentTabs example_host (example_store\<lparr>sessionNameInput := [0x20]\<rparr>))) =
     [js ''Work'', js ''Work'', js ''Work'', js ''Session '' @ js ''10/11/2025, 1:30:00 PM''] \<and>
   last (trace (saveCurrentTabs example_host (example_store\<lparr>sessionNameInput := [0x20]\<rparr>))) =
     Feedback (js ''Session saved successfully!'') Success \<and>
   saveCurrentTabs failing_query_host (example_store\<lparr>sessionNameInput := [0x20]\<rparr>) =
     example_store\<lparr>sessionNameInput := [0x20],
       trace := [TabsQuery, ConsoleError (js ''Error saving tabs:'') (Thrown (js ''No window'')),
                 Feedback (js ''Error saving session'') Error]\<rparr>"
proof -
  let ?st = "example_store\<lparr>sessionNameInput := [0x20]\<rparr>"
  have h1: "trim (sessionNameInput ?st) = []" by (simp add: trim_def isWhiteSpace_def)
  have h2: "tabs_query example_host = Inr [tabA, tabB]" by (simp add: example_host_def)
  have h3: "storage_set example_host = None" by (simp add: example_host_def)
  have h4: "tabs_query failing_query_host = Inl (js ''No window'')"
    by (simp add: failing_query_host_def)
  from save_blank_name_uses_default [OF h1, of example_host] h2 h3
  have a: "sessions (saveCurrentTabs example_host ?st) =
      sessions ?st @
        [\<lparr>name = js ''Session '' @ date_toLocaleString example_host,
          tabs = map (\<lambda>tab. \<lparr>title = tab_title tab, url = tab_url tab\<rparr>) [tabA, tabB],
          timestamp = date_now example_host, tabCount = length [tabA, tabB]\<rparr>]"
    and b: "trace (saveCurrentTabs example_host ?st) =
        trace ?st @
          [TabsQuery, StorageSet (sessions (saveCurrentTabs example_host ?st)),
           Feedback (js ''Session saved successfully!'') Success]"
    by blast+
  from save_blank_name_uses_default [OF h1, of failing_query_host] h4
  have c: "saveCurrentTabs failing_query_host ?st =
      ?st\<lparr>trace := trace ?st @
        [TabsQuery, ConsoleError (js ''Error saving tabs:'') (Thrown (js ''No window'')),
         Feedback (js ''Error saving session'') Error]\<rparr>"
    by blast
  show ?thesis
    unfolding a b c using h1
    by (simp add: example_store_def example_popup_def example_host_def session_at_def)
qed

text \<open>
  A name input of two spaces on a popup without sessions: one session is stored under the
  default name, the storage key is written, and the feedback reports success.
\<close>

theorem save_blank_name_counterexample:
  "trim (sessionNameInput (example_popup\<lparr>sessionNameInput := [0x20, 0x20]\<rparr>)) = [] \<and>
   sessions (saveCurrentTabs example_host (example_popup\<lparr>sessionNameInput := [0x20, 0x20]\<rparr>)) =
     [\<lparr>name = js ''Session 10/11/2025, 1:30:00 PM'',
       tabs = [\<lparr>title = js ''A'', url = js ''https://a.test''\<rparr>,
               \<lparr>title = js ''B'', url = js ''https://b.test''\<rparr>],
       timestamp = 1000, tabCount = 2\<rparr>] \<and>
   sessions_key (storage (saveCurrentTabs example_host
       (example_popup\<lparr>sessionNameInput := [0x20, 0x20]\<rparr>))) \<noteq>
     sessions_key (storage (example_popup\<lparr>sessionNameInput := [0x20, 0x20]\<rparr>)) \<and>
   last (trace (saveCurrentTabs example_host (example_popup\<lparr>sessionNameInput := [0x20, 0x20]\<rparr>))) =
     Feedback (js ''Session saved successfully!'') Success"
  by (simp add: saveCurrentTabs_def Let_def handler_defs example_defs trim_def isWhiteSpace_def
        js_def)

text \<open>
  C7. The session a save constructs has \<open>tabCount\<close> equal to the number of its tabs,
  \<open>tabs\<close> equal to the title and url of the window's tabs in the order the query
  returned them, the clock reading as timestamp, and, when the trimmed name input is
  empty, the name \<^verbatim>\<open>Session\<close> followed by the locale-formatted time.
\<close>

theorem save_constructs_session:
  assumes "tabs_query h = Inr windowTabs"
  shows "\<exists>s. sessions (saveCurrentTabs h st) = sessions st @ [s] \<and>
             tabCount s = length (tabs s) \<and>
             tabs s = map (\<lambda>tab. \<lparr>title = tab_title tab, url = tab_url tab\<rparr>) windowTabs \<and>
             timestamp s = date_now h \<and>
             name s = (if trim (sessionNameInput st) = []
                       then js ''Session '' @ date_toLocaleString h
                       else trim (sessionNameInput st))"
  using assms
  by (cases "storage_set h") (simp_all add: saveCurrentTabs_def Let_def handler_defs)

theorem save_constructs_session_witness:
  "tabs_query example_host = Inr [tabA, tabB] \<and>
   (\<exists>s. sessions (saveCurrentTabs example_host example_popup) = [s] \<and>
        tabCount s = 2 \<and>
        tabs s = [\<lparr>title = js ''A'', url = js ''https://a.test''\<rparr>,
                  \<lparr>title = js ''B'', url = js ''https://b.test''\<rparr>] \<and>
        timestamp s = 1000 \<and>
        name s = js ''Session '' @ js ''10/11/2025, 1:30:00 PM'')"
proof -
  have h: "tabs_query example_host = Inr [tabA, tabB]"
    by (simp add: example_host_def)
  from save_constructs_session [OF h, of example_popup] obtain s where
    "sessions (saveCurrentTabs example_host example_popup) = sessions example_popup @ [s]"
    "tabCount s = length (tabs s)"
    "tabs s = map (\<lambda>tab. \<lparr>title = tab_title tab, url = tab_url tab\<rparr>) [tabA, tabB]"
    "timestamp s = date_now example_host"
    "name s = (if trim (sessionNameInput example_popup) = []
               then js ''Session '' @ date_toLocaleString example_host
               else trim (sessionNameInput example_popup))"
    by blast
  then have
    "sessions (saveCurrentTabs example_host example_popup) = [s] \<and>
        tabCount s = 2 \<and>
        tabs s = [\<lparr>title = js ''A'', url = js ''https://a.test''\<rparr>,
                  \<lparr>title = js ''B'', url = js ''https://b.test''\<rparr>] \<and>
        timestamp s = 1000 \<and>
        name s = js ''Session '' @ js ''10/11/2025, 1:30:00 PM''"
    by (simp add: example_popup_def example_host_def tabA_def tabB_def trim_def)
  with h show ?thesis by blast
qed

subsection \<open>Loading\<close>

text \<open>
  C9. When nothing was ever written under the key \<^verbatim>\<open>sessions\<close>, loading yields the
  empty list and logs no error: the only event is the read itself.
\<close>

theorem load_missing_key_gives_empty:
  assumes "sessions_key (storage st) = None" and "storage_get h = None"
  shows "sessions (loadSessions h st) = [] \<and>
         trace (loadSessions h st) = trace st @ [StorageGet]"
  using assms by (simp add: loadSessions_def Let_def handler_defs)

theorem load_missing_key_gives_empty_witness:
  "sessions_key (storage example_popup) = None \<and> storage_get example_host = None \<and>
   sessions (loadSessions example_host example_popup) = [] \<and>
   trace (loadSessions example_host example_popup) = [StorageGet]"
proof -
  have h1: "sessions_key (storage example_popup) = None" by (simp add: example_popup_def)
  have h2: "storage_get example_host = None" by (simp add: example_host_def)
  from load_missing_key_gives_empty [OF h1 h2] h1 h2 show ?thesis
    by (simp add: example_popup_def)
qed

subsection \<open>Deleting\<close>

text \<open>
  C3. Deleting by a timestamp that is in the store removes the first session with that
  timestamp and leaves every other session as it was, in the same order. The removal is
  what \<^verbatim>\<open>deleteSessionByTimestamp\<close> does once the user has answered its prompt with OK;
  the list in memory is then the old list without that session, and so is the stored
  list when the write resolves. With timestamps 100, 200, 300, deleting 200 leaves
  100, 300.
\<close>

theorem delete_removes_first_match:
  assumes "ts \<in> timestamp ` set (sessions st)" and "confirm h"
  shows "\<exists>pre s post.
           sessions st = pre @ s # post \<and> timestamp s = ts \<and>
           (\<forall>x\<in>set pre. timestamp x \<noteq> ts) \<and>
           sessions (deleteSessionByTimestamp ts h st) = pre @ post \<and>
           (storage_set h = None \<longrightarrow>
              sessions_key (storage (deleteSessionByTimestamp ts h st)) = Some (pre @ post))"
proof -
  from assms(1) have "\<exists>x\<in>set (sessions st). timestamp x = ts" by auto
  from first_match_split [OF this] obtain pre s post where
    d: "sessions st = pre @ s # post" and s: "timestamp s = ts"
    and pre: "\<forall>y\<in>set pre. \<not> timestamp y = ts"
    by blast
  have i: "findIndex (\<lambda>x. timestamp x = ts) (sessions st) = int (length pre)"
    unfolding d using pre s by (rule findIndex_first)
  have sp: "splice (sessions st) (int (length pre)) 1 = pre @ post"
    unfolding d by (rule splice_one)
  have a: "sessions (deleteSessionByTimestamp ts h st) = pre @ post"
    using assms(2)
    by (simp add: deleteSessionByTimestamp_def Let_def i sp handler_defs split: option.splits)
  have b: "storage_set h = None \<longrightarrow>
             sessions_key (storage (deleteSessionByTimestamp ts h st)) = Some (pre @ post)"
    using assms(2)
    by (simp add: deleteSessionByTimestamp_def Let_def i sp handler_defs)
  show ?thesis
    by (rule exI [of _ pre], rule exI [of _ s], rule exI [of _ post])
      (use d s pre a b in simp)
qed

theorem delete_removes_first_match_witness:
  "200 \<in> timestamp ` set (sessions example_store) \<and> confirm example_host \<and>
   map timestamp (sessions (deleteSessionByTimestamp 200 example_host example_store)) = [100, 300]"
proof -
  have h1: "200 \<in> timestamp ` set (sessions example_store)"
    by (simp add: example_defs)
  have h2: "confirm example_host" by (simp add: example_host_def)
  from delete_removes_first_match [OF h1 h2] obtain pre s post where
    d: "sessions example_store = pre @ s # post" and s: "timestamp s = 200"
    and r: "sessions (deleteSessionByTimestamp 200 example_host example_store) = pre @ post"
    by blast
  have "map timestamp (sessions example_store) = [100, 200, 300]"
    by (simp add: example_defs)
  then have "map timestamp pre @ 200 # map timestamp post = [100, 200, 300]"
    by (simp add: d s)
  then have "map timestamp pre = [100] \<and> map timestamp post = [300]"
    by (auto simp: append_eq_Cons_conv)
  then have "map timestamp (pre @ post) = [100, 300]" by simp
  with h1 h2 r show ?thesis by simp
qed

text \<open>
  C8. Deleting by a timestamp that is not in the store reports that the session was not
  found (on the console and as error feedback) and changes nothing else: no session is
  removed, no prompt is shown, and no write is issued.
\<close>

theorem delete_absent_reports_not_found:
  assumes "ts \<notin> timestamp ` set (sessions st)"
  shows "deleteSessionByTimestamp ts h st =
           st\<lparr>trace := trace st @
             [ConsoleError (js ''Session not found with timestamp:'') (Timestamp ts),
              Feedback (js ''Error: Session not found'') Error]\<rparr>"
proof -
  from assms have "\<forall>x\<in>set (sessions st). \<not> timestamp x = ts" by auto
  then have "findIndex (\<lambda>s. timestamp s = ts) (sessions st) = -1"
    by (simp add: findIndex_none)
  then show ?thesis
    by (simp add: deleteSessionByTimestamp_def Let_def handler_defs)
qed

theorem delete_absent_reports_not_found_witness:
  "400 \<notin> timestamp ` set (sessions example_store) \<and>
   deleteSessionByTimestamp 400 example_host example_store =
     example_store\<lparr>trace :=
       [ConsoleError (js ''Session not found with timestamp:'') (Timestamp 400),
        Feedback (js ''Error: Session not found'') Error]\<rparr>"
proof -
  have h: "400 \<notin> timestamp ` set (sessions example_store)"
    by (simp add: example_defs)
  from delete_absent_reports_not_found [OF h, of example_host] h show ?thesis
    by (simp add: example_store_def example_popup_def)
qed

text \<open>
  C10. When the user cancels the prompt, deleting a session that is in the store finds
  the session, shows the prompt with its name, and does nothing more: the list in
  memory and the storage are as before and no write is issued.
\<close>

theorem delete_cancelled_changes_nothing:
  assumes "ts \<in> timestamp ` set (sessions st)" and "\<not> confirm h"
  shows "\<exists>s. find (\<lambda>x. timestamp x = ts) (sessions st) = Some s \<and>
             deleteSessionByTimestamp ts h st =
               st\<lparr>trace := trace st @
                 [Confirm (js ''Delete session '' @ [0x22] @ name s @ [0x22, 0x3F])]\<rparr>"
proof -
  from assms(1) have "\<exists>x\<in>set (sessions st). timestamp x = ts" by auto
  from first_match_split [OF this] obtain pre s post where
    d: "sessions st = pre @ s # post" and s: "timestamp s = ts"
    and pre: "\<forall>y\<in>set pre. \<not> timestamp y = ts"
    by blast
  have i: "findIndex (\<lambda>x. timestamp x = ts) (sessions st) = int (length pre)"
    unfolding d using pre s by (rule findIndex_first)
  have f: "find (\<lambda>x. timestamp x = ts) (sessions st) = Some s"
    unfolding d using pre s by (rule find_first)
  have n: "sessions st ! length pre = s" by (simp add: d)
  have "deleteSessionByTimestamp ts h st =
          st\<lparr>trace := trace st @
            [Confirm (js ''Delete session '' @ [0x22] @ name s @ [0x22, 0x3F])]\<rparr>"
    using assms(2) by (simp add: deleteSessionByTimestamp_def Let_def i n handler_defs)
  with f show ?thesis by blast
qed

theorem delete_cancelled_changes_nothing_witness:
  "200 \<in> timestamp ` set (sessions example_store) \<and>
   \<not> confirm (example_host\<lparr>confirm := False\<rparr>) \<and>
   deleteSessionByTimestamp 200 (example_host\<lparr>confirm := False\<rparr>) example_store =
     example_store\<lparr>trace :=
       [Confirm (js ''Delete session '' @ [0x22] @ js ''Work'' @ [0x22, 0x3F])]\<rparr>"
proof -
  have h1: "200 \<in> timestamp ` set (sessions example_store)"
    by (simp add: example_defs)
  have h2: "\<not> confirm (example_host\<lparr>confirm := False\<rparr>)" by simp
  have f: "find (\<lambda>x. timestamp x = 200) (sessions example_store) = Some (session_at 200)"
    by (simp add: example_defs)
  from delete_cancelled_changes_nothing [OF h1 h2] f
  have "deleteSessionByTimestamp 200 (example_host\<lparr>confirm := False\<rparr>) example_store =
     example_store\<lparr>trace := trace example_store @
       [Confirm (js ''Delete session '' @ [0x22] @ name (session_at 200) @ [0x22, 0x3F])]\<rparr>"
    by auto
  with h1 h2 show ?thesis
    by (simp add: example_store_def example_popup_def session_at_def)
qed

subsection \<open>Renaming\<close>

text \<open>
  C4. Confirming a rename with a name that is not empty after trimming, for a timestamp
  that is in the store, changes the name of the session with that timestamp to the
  trimmed input and nothing else of the list: the \<open>tabs\<close>, \<open>timestamp\<close> and
  \<open>tabCount\<close> of every session are as before, in memory whether or not the write
  resolves. The session is found by its timestamp: it is the first one that carries it.
\<close>

theorem rename_updates_only_name:
  assumes "currentRenameTimestamp st = Some ts"
    and "ts \<in> timestamp ` set (sessions st)"
    and "trim (renameInput st) \<noteq> []"
  shows "\<exists>pre s post.
           sessions st = pre @ s # post \<and> timestamp s = ts \<and>
           (\<forall>x\<in>set pre. timestamp x \<noteq> ts) \<and>
           sessions (confirmRename h st) = pre @ s\<lparr>name := trim (renameInput st)\<rparr> # post \<and>
           map tabs (sessions (confirmRename h st)) = map tabs (sessions st) \<and>
           map timestamp (sessions (confirmRename h st)) = map timestamp (sessions st) \<and>
           map tabCount (sessions (confirmRename h st)) = map tabCount (sessions st)"
proof -
  from assms(2) have "\<exists>x\<in>set (sessions st). timestamp x = ts" by auto
  from first_match_split [OF this] obtain pre s post where
    d: "sessions st = pre @ s # post" and s: "timestamp s = ts"
    and pre: "\<forall>y\<in>set pre. \<not> timestamp y = ts"
    by blast
  have i: "findIndex (\<lambda>x. timestamp x = ts) (sessions st) = int (length pre)"
    unfolding d using pre s by (rule findIndex_first)
  have n: "sessions st ! length pre = s" by (simp add: d)
  have u: "(sessions st)[length pre := r] = pre @ r # post" for r
    by (simp add: d)
  have a: "sessions (confirmRename h st) = pre @ s\<lparr>name := trim (renameInput st)\<rparr> # post"
    using assms(1,3)
    by (simp add: confirmRename_def Let_def i n u closeRenameModal_def handler_defs
             split: option.splits)
  have b: "map tabs (sessions (confirmRename h st)) = map tabs (sessions st) \<and>
           map timestamp (sessions (confirmRename h st)) = map timestamp (sessions st) \<and>
           map tabCount (sessions (confirmRename h st)) = map tabCount (sessions st)"
    unfolding a by (simp add: d)
  show ?thesis
    by (rule exI [of _ pre], rule exI [of _ s], rule exI [of _ post])
      (use d s pre a b in simp)
qed

theorem rename_updates_only_name_witness:
  "currentRenameTimestamp (example_rename\<lparr>renameInput := js ''  Home ''\<rparr>) = Some 200 \<and>
   trim (renameInput (example_rename\<lparr>renameInput := js ''  Home ''\<rparr>)) = js ''Home'' \<and>
   map name (sessions (confirmRename example_host (example_rename\<lparr>renameInput := js ''  Home ''\<rparr>))) =
     [js ''Work'', js ''Home'', js ''Work''] \<and>
   map timestamp (sessions (confirmRename example_host (example_rename\<lparr>renameInput := js ''  Home ''\<rparr>))) =
     [100, 200, 300]"
proof -
  let ?st = "example_rename\<lparr>renameInput := js ''  Home ''\<rparr>"
  have t: "trim (renameInput ?st) = js ''Home''"
    by (simp add: trim_def isWhiteSpace_def js_def)
  have h1: "currentRenameTimestamp ?st = Some 200"
    by (simp add: example_rename_def)
  have h2: "200 \<in> timestamp ` set (sessions ?st)"
    by (simp add: example_rename_def example_store_def session_at_def)
  have h3: "trim (renameInput ?st) \<noteq> []"
    unfolding t by (simp add: js_def)
  from rename_updates_only_name [OF h1 h2 h3, of example_host] obtain pre s post where
    d: "sessions ?st = pre @ s # post" and s: "timestamp s = 200"
    and r: "sessions (confirmRename example_host ?st) = pre @ s\<lparr>name := js ''Home''\<rparr> # post"
    and m: "map timestamp (sessions (confirmRename example_host ?st)) = map timestamp (sessions ?st)"
    unfolding t by blast
  have l: "sessions ?st = [session_at 100, session_at 200, session_at 300]"
    by (simp add: example_rename_def example_store_def)
  from d l have "pre @ s # post = [session_at 100, session_at 200, session_at 300]" by simp
  with s have "pre = [session_at 100] \<and> s = session_at 200 \<and> post = [session_at 300]"
    by (auto simp: append_eq_Cons_conv session_at_def)
  with r have "sessions (confirmRename example_host ?st) =
      [session_at 100, (session_at 200)\<lparr>name := js ''Home''\<rparr>, session_at 300]" by simp
  then have "map name (sessions (confirmRename example_host ?st)) = [js ''Work'', js ''Home'', js ''Work'']"
    by (simp add: session_at_def)
  moreover have "map timestamp (sessions (confirmRename example_host ?st)) = [100, 200, 300]"
    unfolding m l by (simp add: session_at_def)
  ultimately show ?thesis using h1 t by simp
qed

text \<open>
  C5. Confirming a rename with an input of white space only (or nothing) reports
  \<^verbatim>\<open>Please enter a name\<close> as an error and changes nothing else: the sessions and the
  storage are as before, and the dialog stays open on the same session.
\<close>

theorem rename_blank_rejected:
  assumes "currentRenameTimestamp st = Some target"
    and "\<forall>c\<in>set (renameInput st). isWhiteSpace c"
  shows "confirmRename h st =
           st\<lparr>trace := trace st @ [Feedback (js ''Please enter a name'') Error]\<rparr> \<and>
         sessions (confirmRename h st) = sessions st \<and>
         storage (confirmRename h st) = storage st \<and>
         renameModalHidden (confirmRename h st) = renameModalHidden st \<and>
         currentRenameTimestamp (confirmRename h st) = Some target"
proof -
  from assms(2) have "trim (renameInput st) = []" by (simp add: trim_empty_iff)
  with assms(1) have
    "confirmRename h st = st\<lparr>trace := trace st @ [Feedback (js ''Please enter a name'') Error]\<rparr>"
    by (simp add: confirmRename_def Let_def handler_defs)
  then show ?thesis using assms(1) by simp
qed

theorem rename_blank_rejected_witness:
  "trim (renameInput (example_rename\<lparr>renameInput := [0x20, 0x09]\<rparr>)) = [] \<and>
   confirmRename example_host (example_rename\<lparr>renameInput := [0x20, 0x09]\<rparr>) =
     example_rename\<lparr>renameInput := [0x20, 0x09],
       trace := [Feedback (js ''Please enter a name'') Error]\<rparr> \<and>
   renameModalHidden (confirmRename example_host (example_rename\<lparr>renameInput := [0x20, 0x09]\<rparr>)) =
     False"
proof -
  let ?st = "example_rename\<lparr>renameInput := [0x20, 0x09]\<rparr>"
  have h1: "currentRenameTimestamp ?st = Some 200"
    by (simp add: example_rename_def)
  have h2: "\<forall>c\<in>set (renameInput ?st). isWhiteSpace c"
    by (simp add: isWhiteSpace_def)
  have h3: "trim (renameInput ?st) = []"
    by (simp add: trim_def isWhiteSpace_def)
  from rename_blank_rejected [OF h1 h2, of example_host] h3 show ?thesis
    by (simp add: example_rename_def example_store_def example_popup_def)
qed

subsection \<open>Opening\<close>

lemma tabRequests_append [simp]: "tabRequests (xs @ ys) = tabRequests xs @ tabRequests ys"
  by (induction xs rule: tabRequests.induct) auto

lemma tabRequests_settled:
  "tabRequests (concat (map (\<lambda>tab. [TabsCreate (url tab) False, TabsCreateSettled True]) ts)) =
     map (\<lambda>tab. (url tab, False)) ts"
  by (induction ts) auto

lemma createTabs_all_resolve:
  assumes "\<forall>j<length ts. tabs_create h (k + j) = None"
  shows "createTabs h k ts st =
           (None, st\<lparr>trace := trace st @
              concat (map (\<lambda>tab. [TabsCreate (url tab) False, TabsCreateSettled True]) ts)\<rparr>)"
  using assms
proof (induction ts arbitrary: k st)
  case Nil
  then show ?case by simp
next
  case (Cons tab rest)
  from Cons.prems have here: "tabs_create h k = None" by force
  have "\<forall>j<length rest. tabs_create h (Suc k + j) = None"
  proof (intro allI impI)
    fix j assume "j < length rest"
    then have "Suc j < length (tab # rest)" by simp
    with Cons.prems have "tabs_create h (k + Suc j) = None" by blast
    then show "tabs_create h (Suc k + j) = None" by simp
  qed
  from Cons.IH [OF this] here show ?case by (simp add: emit_def)
qed

text \<open>
  A creation that rejects ends the loop: the tabs after it are never requested.
\<close>

lemma createTabs_stops_at_rejection:
  assumes "i < length ts" and "tabs_create h (k + i) = Some err"
    and "\<forall>j<i. tabs_create h (k + j) = None"
  shows "createTabs h k ts st =
           (Some err, st\<lparr>trace := trace st @
              concat (map (\<lambda>tab. [TabsCreate (url tab) False, TabsCreateSettled True]) (take i ts)) @
              [TabsCreate (url (ts ! i)) False, TabsCreateSettled False]\<rparr>)"
  using assms
proof (induction ts arbitrary: k i st)
  case Nil
  then show ?case by simp
next
  case (Cons tab rest)
  show ?case
  proof (cases i)
    case 0
    with Cons.prems show ?thesis by (simp add: emit_def)
  next
    case (Suc i')
    from Cons.prems Suc have here: "tabs_create h k = None" by force
    have a: "i' < length rest" using Cons.prems Suc by simp
    have b: "tabs_create h (Suc k + i') = Some err" using Cons.prems Suc by simp
    have c: "\<forall>j<i'. tabs_create h (Suc k + j) = None"
    proof (intro allI impI)
      fix j assume "j < i'"
      then have "Suc j < i" using Suc by simp
      with Cons.prems have "tabs_create h (k + Suc j) = None" by blast
      then show "tabs_create h (Suc k + j) = None" by simp
    qed
    from Cons.IH [OF a b c] here Suc show ?thesis by (simp add: emit_def)
  qed
qed

lemma tabRequests_take_Suc:
  assumes "i < length ts"
  shows "tabRequests
           (concat (map (\<lambda>tab. [TabsCreate (url tab) False, TabsCreateSettled True]) (take i ts)) @
            [TabsCreate (url (ts ! i)) False, TabsCreateSettled False]) =
         map (\<lambda>tab. (url tab, False)) (take (Suc i) ts)"
  using assms by (simp add: tabRequests_settled take_Suc_conv_app_nth)

lemma open_all_resolve:
  assumes "find (\<lambda>x. timestamp x = ts) (sessions st) = Some s"
    and "\<forall>k<length (tabs s). tabs_create h k = None"
  shows "trace (openSessionByTimestamp ts h st) =
           trace st @
           concat (map (\<lambda>tab. [TabsCreate (url tab) False, TabsCreateSettled True]) (tabs s)) @
           [Feedback (js ''Opened '' @ decimal (length (tabs s)) @ js '' tab'' @
                      (if length (tabs s) \<noteq> 1 then js ''s'' else [])) Success]"
proof -
  from assms(2) have "\<forall>j<length (tabs s). tabs_create h (0 + j) = None" by simp
  from createTabs_all_resolve [OF this] have
    c: "createTabs h 0 (tabs s) st =
          (None, st\<lparr>trace := trace st @
             concat (map (\<lambda>tab. [TabsCreate (url tab) False, TabsCreateSettled True]) (tabs s))\<rparr>)" .
  show ?thesis
    by (simp add: openSessionByTimestamp_def assms(1) c showFeedback_def emit_def)
qed

lemma open_first_rejection:
  assumes "find (\<lambda>x. timestamp x = ts) (sessions st) = Some s"
    and "i < length (tabs s)" and "tabs_create h i = Some err"
    and "\<forall>j<i. tabs_create h j = None"
  shows "trace (openSessionByTimestamp ts h st) =
           trace st @
           concat (map (\<lambda>tab. [TabsCreate (url tab) False, TabsCreateSettled True])
                     (take i (tabs s))) @
           [TabsCreate (url (tabs s ! i)) False, TabsCreateSettled False,
            ConsoleError (js ''Error opening session:'') (Thrown err),
            Feedback (js ''Error opening session'') Error]"
proof -
  have a: "tabs_create h (0 + i) = Some err" using assms(3) by simp
  have b: "\<forall>j<i. tabs_create h (0 + j) = None" using assms(4) by simp
  note c = createTabs_stops_at_rejection [OF assms(2) a b, of st]
  show ?thesis
    by (simp add: openSessionByTimestamp_def assms(1) c showFeedback_def console_error_def
          emit_def)
qed

text \<open>
  C6. Opening a session with \<open>N\<close> tab records issues \<open>N\<close> creation requests, one per
  record in the stored order, each for an inactive tab with the record's url, each
  awaited before the next.

  The loop is inside \<^verbatim>\<open>try\<close>, so this is what happens when every creation resolves:
  each request is followed by the settling of its promise before the next request, and
  the requests are \<open>N\<close>. A creation that rejects ends the loop: when the creation for
  record \<open>i\<close> (from 0) is the first to reject, the requests are those for the first
  \<open>i + 1\<close> records, the records after it are never requested, and the error is logged
  and reported. Whatever the host answers, the requests are those for a prefix of the
  stored records, in the stored order, each for an inactive tab.
\<close>

theorem open_requests_until_rejection:
  assumes "find (\<lambda>x. timestamp x = ts) (sessions st) = Some s"
  shows "((\<forall>k<length (tabs s). tabs_create h k = None) \<longrightarrow>
            trace (openSessionByTimestamp ts h st) =
              trace st @
              concat (map (\<lambda>tab. [TabsCreate (url tab) False, TabsCreateSettled True]) (tabs s)) @
              [Feedback (js ''Opened '' @ decimal (length (tabs s)) @ js '' tab'' @
                         (if length (tabs s) \<noteq> 1 then js ''s'' else [])) Success] \<and>
            tabRequests (trace (openSessionByTimestamp ts h st)) =
              tabRequests (trace st) @ map (\<lambda>tab. (url tab, False)) (tabs s) \<and>
            length (tabRequests (trace (openSessionByTimestamp ts h st))) =
              length (tabRequests (trace st)) + length (tabs s)) \<and>
         (\<forall>i err. i < length (tabs s) \<and> tabs_create h i = Some err \<and>
                   (\<forall>j<i. tabs_create h j = None) \<longrightarrow>
            trace (openSessionByTimestamp ts h st) =
              trace st @
              concat (map (\<lambda>tab. [TabsCreate (url tab) False, TabsCreateSettled True])
                        (take i (tabs s))) @
              [TabsCreate (url (tabs s ! i)) False, TabsCreateSettled False,
               ConsoleError (js ''Error opening session:'') (Thrown err),
               Feedback (js ''Error opening session'') Error] \<and>
            tabRequests (trace (openSessionByTimestamp ts h st)) =
              tabRequests (trace st) @ map (\<lambda>tab. (url tab, False)) (take (Suc i) (tabs s)) \<and>
            length (tabRequests (trace (openSessionByTimestamp ts h st))) =
              length (tabRequests (trace st)) + Suc i) \<and>
         (\<exists>n\<le>length (tabs s).
            tabRequests (trace (openSessionByTimestamp ts h st)) =
              tabRequests (trace st) @ map (\<lambda>tab. (url tab, False)) (take n (tabs s)))"
proof -
  have ok: "tabRequests (trace (openSessionByTimestamp ts h st)) =
              tabRequests (trace st) @ map (\<lambda>tab. (url tab, False)) (tabs s)"
    if "\<forall>k<length (tabs s). tabs_create h k = None"
    unfolding open_all_resolve [OF assms that] by (simp add: tabRequests_settled)
  have bad: "tabRequests (trace (openSessionByTimestamp ts h st)) =
              tabRequests (trace st) @ map (\<lambda>tab. (url tab, False)) (take (Suc i) (tabs s))"
    if "i < length (tabs s)" "tabs_create h i = Some err" "\<forall>j<i. tabs_create h j = None"
    for i err
    unfolding open_first_rejection [OF assms that]
    using tabRequests_take_Suc [OF that(1)] by simp
  have first: "(\<forall>k<length (tabs s). tabs_create h k = None) \<longrightarrow>
            trace (openSessionByTimestamp ts h st) =
              trace st @
              concat (map (\<lambda>tab. [TabsCreate (url tab) False, TabsCreateSettled True]) (tabs s)) @
              [Feedback (js ''Opened '' @ decimal (length (tabs s)) @ js '' tab'' @
                         (if length (tabs s) \<noteq> 1 then js ''s'' else [])) Success] \<and>
            tabRequests (trace (openSessionByTimestamp ts h st)) =
              tabRequests (trace st) @ map (\<lambda>tab. (url tab, False)) (tabs s) \<and>
            length (tabRequests (trace (openSessionByTimestamp ts h st))) =
              length (tabRequests (trace st)) + length (tabs s)"
  proof
    assume a: "\<forall>k<length (tabs s). tabs_create h k = None"
    show "trace (openSessionByTimestamp ts h st) =
              trace st @
              concat (map (\<lambda>tab. [TabsCreate (url tab) False, TabsCreateSettled True]) (tabs s)) @
              [Feedback (js ''Opened '' @ decimal (length (tabs s)) @ js '' tab'' @
                         (if length (tabs s) \<noteq> 1 then js ''s'' else [])) Success] \<and>
            tabRequests (trace (openSessionByTimestamp ts h st)) =
              tabRequests (trace st) @ map (\<lambda>tab. (url tab, False)) (tabs s) \<and>
            length (tabRequests (trace (openSessionByTimestamp ts h st))) =
              length (tabRequests (trace st)) + length (tabs s)"
      using open_all_resolve [OF assms a] ok [OF a] by simp
  qed
  have second: "\<forall>i err. i < length (tabs s) \<and> tabs_create h i = Some err \<and>
                   (\<forall>j<i. tabs_create h j = None) \<longrightarrow>
            trace (openSessionByTimestamp ts h st) =
              trace st @
              concat (map (\<lambda>tab. [TabsCreate (url tab) False, TabsCreateSettled True])
                        (take i (tabs s))) @
              [TabsCreate (url (tabs s ! i)) False, TabsCreateSettled False,
               ConsoleError (js ''Error opening session:'') (Thrown err),
               Feedback (js ''Error opening session'') Error] \<and>
            tabRequests (trace (openSessionByTimestamp ts h st)) =
              tabRequests (trace st) @ map (\<lambda>tab. (url tab, False)) (take (Suc i) (tabs s)) \<and>
            length (tabRequests (trace (openSessionByTimestamp ts h st))) =
              length (tabRequests (trace st)) + Suc i"
  proof (intro allI impI)
    fix i err
    assume a: "i < length (tabs s) \<and> tabs_create h i = Some err \<and>
                   (\<forall>j<i. tabs_create h j = None)"
    then have a1: "i < length (tabs s)" and a2: "tabs_create h i = Some err"
      and a3: "\<forall>j<i. tabs_create h j = None" by simp_all
    have l: "length (map (\<lambda>tab. (url tab, False)) (take (Suc i) (tabs s))) = Suc i"
      using a1 by simp
    show "trace (openSessionByTimestamp ts h st) =
              trace st @
              concat (map (\<lambda>tab. [TabsCreate (url tab) False, TabsCreateSettled True])
                        (take i (tabs s))) @
              [TabsCreate (url (tabs s ! i)) False, TabsCreateSettled False,
               ConsoleError (js ''Error opening session:'') (Thrown err),
               Feedback (js ''Error opening session'') Error] \<and>
            tabRequests (trace (openSessionByTimestamp ts h st)) =
              tabRequests (trace st) @ map (\<lambda>tab. (url tab, False)) (take (Suc i) (tabs s)) \<and>
            length (tabRequests (trace (openSessionByTimestamp ts h st))) =
              length (tabRequests (trace st)) + Suc i"
      using open_first_rejection [OF assms a1 a2 a3] bad [OF a1 a2 a3] l
      by simp
  qed
  have third: "\<exists>n\<le>length (tabs s).
            tabRequests (trace (openSessionByTimestamp ts h st)) =
              tabRequests (trace st) @ map (\<lambda>tab. (url tab, False)) (take n (tabs s))"
  proof (cases "\<forall>k<length (tabs s). tabs_create h k = None")
    case True
    from ok [OF True] show ?thesis by (intro exI [of _ "length (tabs s)"]) simp
  next
    case False
    then have "\<exists>i. i < length (tabs s) \<and> tabs_create h i \<noteq> None" by blast
    then obtain i where i: "i < length (tabs s) \<and> tabs_create h i \<noteq> None"
      and least: "\<forall>j<i. \<not> (j < length (tabs s) \<and> tabs_create h j \<noteq> None)"
      using exists_least_iff [of "\<lambda>i. i < length (tabs s) \<and> tabs_create h i \<noteq> None"] by blast
    from i obtain err where e: "tabs_create h i = Some err" by auto
    from least i have b: "\<forall>j<i. tabs_create h j = None" by auto
    from i have a1: "i < length (tabs s)" by simp
    from bad [OF a1 e b] a1 show ?thesis by (intro exI [of _ "Suc i"]) simp
  qed
  from first second third show ?thesis by (intro conjI)
qed

theorem open_requests_until_rejection_witness:
  "find (\<lambda>x. timestamp x = 200) (sessions example_store) = Some (session_at 200) \<and>
   map (tabs_create example_host) [0, 1] = [None, None] \<and>
   trace (openSessionByTimestamp 200 example_host example_store) =
     [TabsCreate (js ''https://a.test'') False, TabsCreateSettled True,
      TabsCreate (js ''https://b.test'') False, TabsCreateSettled True,
      Feedback (js ''Opened 2 tabs'') Success] \<and>
   tabRequests (trace (openSessionByTimestamp 200 example_host example_store)) =
     [(js ''https://a.test'', False), (js ''https://b.test'', False)]"
proof -
  have h1: "find (\<lambda>x. timestamp x = 200) (sessions example_store) = Some (session_at 200)"
    by (simp add: example_defs)
  have h2: "\<forall>k<length (tabs (session_at 200)). tabs_create example_host k = None"
    by (simp add: example_host_def)
  have h3: "map (tabs_create example_host) [0, 1] = [None, None]"
    by (simp add: example_host_def)
  from open_requests_until_rejection [OF h1, of example_host] h2
  have "trace (openSessionByTimestamp 200 example_host example_store) =
      trace example_store @
      concat (map (\<lambda>tab. [TabsCreate (url tab) False, TabsCreateSettled True])
                (tabs (session_at 200))) @
      [Feedback (js ''Opened '' @ decimal (length (tabs (session_at 200))) @ js '' tab'' @
                 (if length (tabs (session_at 200)) \<noteq> 1 then js ''s'' else [])) Success] \<and>
    tabRequests (trace (openSessionByTimestamp 200 example_host example_store)) =
      tabRequests (trace example_store) @ map (\<lambda>tab. (url tab, False)) (tabs (session_at 200))"
    by blast
  with h1 h3 show ?thesis
    by (simp add: example_store_def example_popup_def session_at_def decimal.simps js_def)
qed

text \<open>
  A session with two tab records on a browser that rejects the first creation: one
  request is issued, the second record is never requested, and the error is reported.
\<close>

theorem open_rejected_creation_counterexample:
  "find (\<lambda>x. timestamp x = 200) (sessions example_store) = Some (session_at 200) \<and>
   length (tabs (session_at 200)) = 2 \<and>
   tabRequests (trace (openSessionByTimestamp 200 rejecting_host example_store)) =
     [(js ''https://a.test'', False)] \<and>
   trace (openSessionByTimestamp 200 rejecting_host example_store) =
     [TabsCreate (js ''https://a.test'') False, TabsCreateSettled False,
      ConsoleError (js ''Error opening session:'') (Thrown (js ''No tab'')),
      Feedback (js ''Error opening session'') Error]"
  by (simp add: openSessionByTimestamp_def rejecting_host_def handler_defs example_defs)

end
